theory Spec2Isabelle
  imports Main "HOL-Library.AList"
begin

section \<open>JavaScript values\<close>

text \<open>
  The values that flow through \<open>src/src/container.js\<close>: resolved instances, errors,
  interception matchers. Objects and functions are references (\<open>JObj n\<close>, \<open>JFun n\<close>);
  \<open>JError msg\<close> is \<open>new Error(msg)\<close>.
\<close>

datatype jsval =
    Undefined
  | Null
  | JBool bool
  | JNum int
  | JStr string
  | JObj nat
  | JFun nat
  | JArr "jsval list"
  | JError string

text \<open>The coercion behind \<open>if (x)\<close>, \<open>!x\<close> and \<open>x || y\<close>.\<close>

fun truthy :: "jsval \<Rightarrow> bool" where
  "truthy Undefined = False"
| "truthy Null = False"
| "truthy (JBool b) = b"
| "truthy (JNum n) = (n \<noteq> 0)"
| "truthy (JStr s) = (s \<noteq> [])"
| "truthy (JObj _) = True"
| "truthy (JFun _) = True"
| "truthy (JArr _) = True"
| "truthy (JError _) = True"

text \<open>A call either returns a value or throws one.\<close>

datatype 'a completion = Threw jsval | Returned 'a

type_synonym key = string

definition dquote :: string where
  "dquote = [CHR 0x22]"

text \<open>\<open>createUnregisteredError(key)\<close>, lines 7-9.\<close>

definition createUnregisteredError :: "key \<Rightarrow> jsval" where
  "createUnregisteredError k =
     JError (''Nothing with key '' @ dquote @ k @ dquote @ '' is registered in the container'')"

section \<open>Lifetimes, registrations, containers\<close>

text \<open>
  Instances and lifetime caches live in a heap of cells shared by every container that
  holds a reference to them. A lifetime policy is any object the caller supplies
  (line 20) with the two methods \<open>fetch()\<close> and \<open>store(instance)\<close>; both may read and
  write the heap, and both may throw.
\<close>

type_synonym heap = "nat \<Rightarrow> jsval"

record lifetime =
  fetch :: "heap \<Rightarrow> jsval completion \<times> heap"
  store :: "jsval \<Rightarrow> heap \<Rightarrow> unit completion \<times> heap"

text \<open>
  Modelled from the spec: \<open>lifetimes.Transient\<close> of \<open>./lifetime\<close> is not in src/. Section
  4.3: a transient policy always reports absent and ignores store.
\<close>

definition Transient :: lifetime where
  "Transient =
     \<lparr> fetch = (\<lambda>h. (Returned Undefined, h)), store = (\<lambda>v h. (Returned (), h)) \<rparr>"

record typeInfo =
  name :: key
  args :: "key list"

text \<open>
  The three registration kinds, lines 18-37. Injections and factories are user objects,
  named here by a number; what they do when called is given by the collaborators below.
\<close>

datatype registration =
    TypeRegistration key lifetime "nat list" typeInfo
  | InstanceRegistration key lifetime "nat list" jsval
  | FactoryRegistration key lifetime "nat list" nat

fun reg_name :: "registration \<Rightarrow> key" where
  "reg_name (TypeRegistration n l i t) = n"
| "reg_name (InstanceRegistration n l i v) = n"
| "reg_name (FactoryRegistration n l i f) = n"

fun reg_lifetime :: "registration \<Rightarrow> lifetime" where
  "reg_lifetime (TypeRegistration n l i t) = l"
| "reg_lifetime (InstanceRegistration n l i v) = l"
| "reg_lifetime (FactoryRegistration n l i f) = l"

fun reg_injections :: "registration \<Rightarrow> nat list" where
  "reg_injections (TypeRegistration n l i t) = i"
| "reg_injections (InstanceRegistration n l i v) = i"
| "reg_injections (FactoryRegistration n l i f) = i"

text \<open>
  \<open>Registration(name, lifetime, injections)\<close>, lines 18-22: a missing lifetime defaults
  to a new transient one, a missing injection list to the empty list.
\<close>

definition lifetime_or_default :: "lifetime option \<Rightarrow> lifetime" where
  "lifetime_or_default l = (case l of None \<Rightarrow> Transient | Some x \<Rightarrow> x)"

definition injections_or_default :: "nat list option \<Rightarrow> nat list" where
  "injections_or_default i = (case i of None \<Rightarrow> [] | Some xs \<Rightarrow> xs)"

text \<open>
  A handler configuration (lines 339-342). \<open>isAsync\<close> is unset until \<open>sync()\<close> or
  \<open>async()\<close> writes it. The matcher is the predicate closure built by \<open>intercept\<close>.
\<close>

record handlerConfig =
  handlers :: "nat list"
  matcher :: "jsval \<Rightarrow> string \<Rightarrow> jsval completion"
  isAsync :: "bool option"

text \<open>
  \<open>Container(parent)\<close>, lines 39-48. \<open>registrations\<close> and \<open>graph\<close> (the \<open>map\<close> object of
  the dependency graph) are JavaScript objects used as dictionaries: association lists
  in insertion order, holding what the register functions have assigned.
  \<open>handlerConfigs\<close> holds references to handler configuration objects, \<open>graph\<close>
  references to edge arrays, \<open>parent\<close> a reference to the parent container.
\<close>

record container =
  parent :: "nat option"
  registrations :: "(key \<times> registration) list"
  handlerConfigs :: "nat list"
  graph :: "(key \<times> nat) list"

text \<open>
  The object store: containers, the edge arrays of the dependency graphs and the handler
  configuration objects, each under its reference. Two containers can hold a reference
  to the same array or the same configuration. \<open>fresh\<close> is the next unused reference.
\<close>

record objects =
  containers :: "nat \<Rightarrow> container"
  arrays :: "nat \<Rightarrow> key list"
  configs :: "nat \<Rightarrow> handlerConfig"
  fresh :: nat

definition newContainer :: "nat option \<Rightarrow> objects \<Rightarrow> nat \<times> objects" where
  "newContainer p ob =
     (fresh ob,
      ob\<lparr> containers := (containers ob)(fresh ob :=
             \<lparr> parent = p, registrations = [], handlerConfigs = [], graph = [] \<rparr>),
          fresh := Suc (fresh ob) \<rparr>)"

section \<open>Reading the registrations\<close>

text \<open>
  \<open>this.registrations\<close> is a plain object (\<open>{}\<close>, line 41), so \<open>this.registrations[key]\<close>
  (lines 170, 184, 232, 278, 302) finds more than what has been registered: every plain
  object inherits the members of \<open>Object.prototype\<close>, whose names these are.
\<close>

definition object_prototype_names :: "string list" where
  "object_prototype_names =
     [''constructor'', ''toString'', ''toLocaleString'', ''valueOf'', ''hasOwnProperty'',
      ''isPrototypeOf'', ''propertyIsEnumerable'', ''__proto__'', ''__defineGetter__'',
      ''__defineSetter__'', ''__lookupGetter__'', ''__lookupSetter__'']"

text \<open>
  What \<open>registrations[key]\<close> yields: a registration, some other truthy value that is
  inherited, or a falsy value (\<open>undefined\<close> when there is nothing under the key).
\<close>

datatype lookup = Found registration | Inherited | Absent

text \<open>
  An assignment to \<open>registrations['__proto__']\<close> does not create an entry of its own: it
  makes the assigned registration the prototype of \<open>registrations\<close>. Reading \<open>__proto__\<close>
  then yields that registration, which is why the assignment is kept in the list like
  any other; but the fields of that registration (lines 18-37) are inherited as well.
  Its name, lifetime and injections are truthy (lines 19-21, the name being the key), as
  are the type info and the factory; the instance is whatever was registered.
\<close>

fun inherited_from :: "registration \<Rightarrow> key \<Rightarrow> lookup" where
  "inherited_from (TypeRegistration n l i ti) k =
     (if k \<in> {''name'', ''lifetime'', ''injections'', ''typeInfo''} then Inherited else Absent)"
| "inherited_from (InstanceRegistration n l i v) k =
     (if k \<in> {''name'', ''lifetime'', ''injections''} then Inherited
      else if k = ''instance'' \<and> truthy v then Inherited
      else Absent)"
| "inherited_from (FactoryRegistration n l i f) k =
     (if k \<in> {''name'', ''lifetime'', ''injections'', ''factory''} then Inherited else Absent)"

text \<open>\<open>registrations[k]\<close>.\<close>

definition lookup :: "(key \<times> registration) list \<Rightarrow> key \<Rightarrow> lookup" where
  "lookup regs k =
     (case map_of regs k of
        Some r \<Rightarrow> Found r
      | None \<Rightarrow>
          if k \<in> set object_prototype_names then Inherited
          else case map_of regs ''__proto__'' of
                 None \<Rightarrow> Absent
               | Some p \<Rightarrow> inherited_from p k)"

text \<open>
  An inherited value is not a registration: it has no \<open>lifetime\<close> and no \<open>injections\<close>,
  so \<open>registration.lifetime.fetch()\<close> (lines 190, 237) and the iteration over
  \<open>registration.injections\<close> (lines 285, 308) throw a \<open>TypeError\<close>, whose message is the
  engine's.
\<close>

definition typeError :: jsval where
  "typeError = JError ''TypeError''"

text \<open>\<open>Object.keys(registrations)\<close>: the keys of its own entries.\<close>

definition object_keys :: "(key \<times> 'a) list \<Rightarrow> key list" where
  "object_keys al = filter (\<lambda>k. k \<noteq> ''__proto__'') (map fst al)"

section \<open>Options\<close>

record options =
  okey :: "string option"
  olifetime :: "lifetime option"
  oinjections :: "nat list option"

text \<open>
  What follows the first argument of a register call: nothing, an options object, or the
  positional form (key, lifetime, injections...), whose first argument is a string key or
  something else that is not an object.
\<close>

datatype signature =
    NoArguments
  | OptionsObject options
  | Positional "string option" "lifetime option" "nat list"

text \<open>\<open>resolveSignatureToOptions(args)\<close>, lines 50-73.\<close>

fun resolveSignatureToOptions :: "signature \<Rightarrow> options" where
  "resolveSignatureToOptions NoArguments =
     \<lparr> okey = None, olifetime = None, oinjections = None \<rparr>"
| "resolveSignatureToOptions (OptionsObject opts) = opts"
| "resolveSignatureToOptions (Positional k l injs) =
     \<lparr> okey = k, olifetime = l, oinjections = Some injs \<rparr>"

text \<open>\<open>!options.key\<close>: the key is missing or the empty string.\<close>

definition key_falsy :: "string option \<Rightarrow> bool" where
  "key_falsy k = (case k of None \<Rightarrow> True | Some s \<Rightarrow> s = [])"

text \<open>\<open>options.key || d\<close>.\<close>

definition key_or :: "string option \<Rightarrow> key \<Rightarrow> key" where
  "key_or k d = (case k of None \<Rightarrow> d | Some s \<Rightarrow> if s = [] then d else s)"

section \<open>The dependency graph\<close>

text \<open>
  Modelled from the spec: the \<open>dep-graph\<close> package (\<open>DependencyGraph\<close>, with \<open>add\<close>,
  \<open>getChain\<close> and the field \<open>map\<close>) is not in src/. The source shows \<open>graph.map\<close> as a
  dictionary from a key to the collection of its edges (lines 372-374 copy it entry by
  entry) and the message of the cycle error (test at line 598). Sections 3 and 4.2: one
  edge \<open>declaringKey \<rightarrow> dependencyKey\<close> per constructor argument; validation computes the
  set reachable from the newly registered key and fails, naming the two adjacent nodes of
  the closing edge, if an edge returns to that key.
\<close>

text \<open>The edges of a graph: for each key of \<open>map\<close>, the entries of its array.\<close>

definition edge_list :: "(key \<times> nat) list \<Rightarrow> objects \<Rightarrow> (key \<times> key) list" where
  "edge_list g ob = concat (map (\<lambda>(k, r). map (\<lambda>d. (k, d)) (arrays ob r)) g)"

text \<open>
  Modelled from the spec: \<open>graph.add(parent, child)\<close> of \<open>dep-graph\<close>, not in src/. The edge
  is pushed onto the array stored under \<open>parent\<close>, which is created on first use; the
  edges of a key form a set, so an edge already there is not added again.
\<close>

definition graph_add ::
  "key \<Rightarrow> key \<Rightarrow> (key \<times> nat) list \<times> objects \<Rightarrow> (key \<times> nat) list \<times> objects" where
  "graph_add p d go =
     (let (g, ob) = go in
      case map_of g p of
        None \<Rightarrow>
          (g @ [(p, fresh ob)],
           ob\<lparr> arrays := (arrays ob)(fresh ob := [d]), fresh := Suc (fresh ob) \<rparr>)
      | Some r \<Rightarrow>
          (g, if d \<in> set (arrays ob r) then ob
              else ob\<lparr> arrays := (arrays ob)(r := arrays ob r @ [d]) \<rparr>))"

text \<open>The error of a cycle; its message is the one the test at line 598 expects.\<close>

definition cyclicError :: "key \<Rightarrow> key \<Rightarrow> jsval" where
  "cyclicError a b = JError (''Cyclic dependency from '' @ a @ '' to '' @ b)"

text \<open>\<open>a\<close> is \<open>k\<close> or is reachable from \<open>k\<close> along the edges.\<close>

definition reachable :: "(key \<times> nat) list \<Rightarrow> objects \<Rightarrow> key \<Rightarrow> key \<Rightarrow> bool" where
  "reachable g ob k a = (a = k \<or> (k, a) \<in> (set (edge_list g ob))\<^sup>+)"

text \<open>
  Modelled from the spec: \<open>graph.getChain(key)\<close> of \<open>dep-graph\<close>, not in src/. Section 4.2:
  the dependencies reachable from \<open>key\<close>, or the cycle error naming the first reachable
  node with an edge back to \<open>key\<close>.
\<close>

definition getChain :: "(key \<times> nat) list \<Rightarrow> objects \<Rightarrow> key \<Rightarrow> key list completion" where
  "getChain g ob k =
     (case filter (\<lambda>(a, d). d = k \<and> reachable g ob k a) (edge_list g ob) of
        [] \<Rightarrow> Returned (remdups (filter (\<lambda>d. (k, d) \<in> (set (edge_list g ob))\<^sup>+)
                                        (map snd (edge_list g ob))))
      | (a, d) # _ \<Rightarrow> Threw (cyclicError a k))"

text \<open>The edges a container sees: those of the arrays its graph refers to.\<close>

definition edges_of :: "objects \<Rightarrow> nat \<Rightarrow> (key \<times> key) set" where
  "edges_of ob this = set (edge_list (graph (containers ob this)) ob)"

text \<open>Every array a graph refers to has been allocated.\<close>

definition graph_wf :: "(key \<times> nat) list \<Rightarrow> objects \<Rightarrow> bool" where
  "graph_wf g ob = (\<forall>(k, r) \<in> set g. r < fresh ob)"

section \<open>Registration\<close>

text \<open>
  The constructor handed to \<open>registerType\<close> is a function reference. The type-info
  extractor \<open>util.getTypeInfo(ctor, key)\<close> of \<open>./util\<close> is not in src/; it is a parameter
  of \<open>registerType\<close>: it returns the type info or throws (missing key, unresolved
  parameter).
\<close>

type_synonym extractor = "nat \<Rightarrow> string option \<Rightarrow> typeInfo completion"

definition set_registration :: "nat \<Rightarrow> key \<Rightarrow> registration \<Rightarrow> objects \<Rightarrow> objects" where
  "set_registration this k r ob =
     ob\<lparr> containers := (containers ob)(this :=
            (containers ob this)\<lparr> registrations :=
               AList.update k r (registrations (containers ob this)) \<rparr>) \<rparr>"

text \<open>One \<open>this.graph.add(typeName, d)\<close> of the loop at lines 100-102.\<close>

definition add_edge :: "nat \<Rightarrow> key \<Rightarrow> objects \<Rightarrow> key \<Rightarrow> objects" where
  "add_edge this typeName ob d =
     (let (g, ob1) = graph_add typeName d (graph (containers ob this), ob)
      in ob1\<lparr> containers := (containers ob1)(this := (containers ob1 this)\<lparr> graph := g \<rparr>) \<rparr>)"

text \<open>
  \<open>registerType\<close>, lines 86-108, called on the container \<open>this\<close>. It returns \<open>this\<close> or
  throws; the object store is returned as the call leaves it in both cases.
\<close>

definition registerType ::
  "extractor \<Rightarrow> nat \<Rightarrow> signature \<Rightarrow> nat \<Rightarrow> objects \<Rightarrow> nat completion \<times> objects" where
  "registerType getTypeInfo ctor sig this ob =
     (let opts = resolveSignatureToOptions sig in
      case getTypeInfo ctor (okey opts) of
        Threw e \<Rightarrow> (Threw e, ob)
      | Returned ti \<Rightarrow>
          (let typeName = name ti;
               ob1 = set_registration this typeName
                       (TypeRegistration typeName
                          (lifetime_or_default (olifetime opts))
                          (injections_or_default (oinjections opts)) ti) ob;
               ob2 = foldl (add_edge this typeName) ob1 (args ti)
           in case getChain (graph (containers ob2 this)) ob2 typeName of
                Threw e \<Rightarrow> (Threw e, ob2)
              | Returned chain \<Rightarrow> (Returned this, ob2)))"

text \<open>
  \<open>registerInstance\<close>, lines 120-131. \<open>getKeyFromInstance(instance)\<close>, lines 14-16, reads
  the name of the instance's runtime constructor; it is a parameter.
\<close>

definition registerInstance ::
  "(jsval \<Rightarrow> key) \<Rightarrow> jsval \<Rightarrow> signature \<Rightarrow> nat \<Rightarrow> objects \<Rightarrow> nat completion \<times> objects" where
  "registerInstance getKeyFromInstance instance sig this ob =
     (let opts = resolveSignatureToOptions sig;
          k = key_or (okey opts) (getKeyFromInstance instance)
      in (Returned this,
          set_registration this k
            (InstanceRegistration k
               (lifetime_or_default (olifetime opts))
               (injections_or_default (oinjections opts)) instance) ob))"

text \<open>\<open>registerFactory\<close>, lines 145-158.\<close>

definition registerFactory ::
  "nat \<Rightarrow> signature \<Rightarrow> nat \<Rightarrow> objects \<Rightarrow> nat completion \<times> objects" where
  "registerFactory factory sig this ob =
     (let opts = resolveSignatureToOptions sig in
      if key_falsy (okey opts)
      then (Threw (JError (dquote @ ''options.key'' @ dquote
                             @ '' must be passed to registerFactory()'')), ob)
      else (Returned this,
            set_registration this (key_or (okey opts) [])
              (FactoryRegistration (key_or (okey opts) [])
                 (lifetime_or_default (olifetime opts))
                 (injections_or_default (oinjections opts)) factory) ob))"

text \<open>
  A key argument is a string or a constructor, whose name is then the key
  (\<open>getKeyFromCtor\<close>, lines 11-13, 166-168, 180-182, 228-230).
\<close>

datatype keyarg = KeyString string | KeyCtor string

fun normalizeKey :: "keyarg \<Rightarrow> key" where
  "normalizeKey (KeyString s) = s"
| "normalizeKey (KeyCtor n) = n"

text \<open>\<open>isRegistered\<close>, lines 165-171.\<close>

definition isRegistered :: "keyarg \<Rightarrow> nat \<Rightarrow> objects \<Rightarrow> bool" where
  "isRegistered ka this ob =
     (lookup (registrations (containers ob this)) (normalizeKey ka) \<noteq> Absent)"

section \<open>Collaborators of resolution\<close>

text \<open>
  What an asynchronous call does with its completion callback: it throws before calling
  it, or it calls \<open>callback(err, value)\<close>.
\<close>

datatype outcome = Thrown jsval | Callback jsval jsval

text \<open>
  The calls the container makes on its collaborators are recorded, in order, next to the
  heap they act on.
\<close>

datatype event =
    Fetch key
  | Store key jsval
  | Build key
  | Factory nat
  | Inject nat

record world =
  mem :: heap
  log :: "event list"

text \<open>
  The object builder (\<open>./builder\<close>: \<open>newInstance\<close>, \<open>newInstanceSync\<close>) is not in src/,
  and factories and injections are user code; the runtime name of an instance's
  constructor is the language's. They are parameters: each is given the container and
  the heap, and returns its completion and the heap as it leaves it.
\<close>

record collaborators =
  newInstanceSync :: "typeInfo \<Rightarrow> handlerConfig list \<Rightarrow> container \<Rightarrow> heap \<Rightarrow> jsval completion \<times> heap"
  newInstance :: "typeInfo \<Rightarrow> handlerConfig list \<Rightarrow> container \<Rightarrow> heap \<Rightarrow> outcome \<times> heap"
  factorySync :: "nat \<Rightarrow> container \<Rightarrow> heap \<Rightarrow> jsval completion \<times> heap"
  factoryAsync :: "nat \<Rightarrow> container \<Rightarrow> heap \<Rightarrow> outcome \<times> heap"
  injectionSync :: "nat \<Rightarrow> jsval \<Rightarrow> container \<Rightarrow> heap \<Rightarrow> unit completion \<times> heap"
  injectionAsync :: "nat \<Rightarrow> jsval \<Rightarrow> container \<Rightarrow> heap \<Rightarrow> outcome \<times> heap"
  getKeyFromInstance :: "jsval \<Rightarrow> key"

section \<open>Injection\<close>

text \<open>The \<open>forEach\<close> of \<open>injectSync\<close>, lines 308-310: in list order, stopping at a throw.\<close>

fun runInjectionsSync ::
  "collaborators \<Rightarrow> container \<Rightarrow> jsval \<Rightarrow> nat list \<Rightarrow> world \<Rightarrow> unit completion \<times> world" where
  "runInjectionsSync cs c instance [] w = (Returned (), w)"
| "runInjectionsSync cs c instance (i # rest) w =
     (case injectionSync cs i instance c (mem w) of
        (Threw e, h) \<Rightarrow> (Threw e, \<lparr> mem = h, log = log w @ [Inject i] \<rparr>)
      | (Returned u, h) \<Rightarrow>
          runInjectionsSync cs c instance rest \<lparr> mem = h, log = log w @ [Inject i] \<rparr>)"

text \<open>\<open>injectSync(instance, key)\<close>, lines 300-311, on the container \<open>this\<close>.\<close>

definition injectSync ::
  "collaborators \<Rightarrow> objects \<Rightarrow> nat \<Rightarrow> jsval \<Rightarrow> string option \<Rightarrow> world
     \<Rightarrow> unit completion \<times> world" where
  "injectSync cs ob this instance k w =
     (let k' = key_or k (getKeyFromInstance cs instance) in
      case lookup (registrations (containers ob this)) k' of
        Absent \<Rightarrow> (Threw (createUnregisteredError k'), w)
      | Inherited \<Rightarrow> (Threw typeError, w)
      | Found registration \<Rightarrow>
          runInjectionsSync cs (containers ob this) instance (reg_injections registration) w)"

text \<open>
  Modelled from the spec: \<open>async.forEach\<close> of the \<open>async\<close> package is not in src/.
  Section 4.5: all injections are started; the pipeline completes once every injection
  has signalled; the first failure observed is the one reported, and the injections
  after it still run. \<open>first\<close> is the first failure seen so far (a falsy value: none).
  An injection that throws instead of calling back ends the loop with that throw.
\<close>

fun runInjections ::
  "collaborators \<Rightarrow> container \<Rightarrow> jsval \<Rightarrow> nat list \<Rightarrow> jsval \<Rightarrow> world \<Rightarrow> outcome \<times> world" where
  "runInjections cs c instance [] first w = (Callback first Undefined, w)"
| "runInjections cs c instance (i # rest) first w =
     (case injectionAsync cs i instance c (mem w) of
        (Thrown e, h) \<Rightarrow> (Thrown e, \<lparr> mem = h, log = log w @ [Inject i] \<rparr>)
      | (Callback err v, h) \<Rightarrow>
          runInjections cs c instance rest
            (if \<not> truthy first \<and> truthy err then err else first)
            \<lparr> mem = h, log = log w @ [Inject i] \<rparr>)"

text \<open>\<open>inject(instance, key, callback)\<close>, lines 276-292.\<close>

definition inject ::
  "collaborators \<Rightarrow> objects \<Rightarrow> nat \<Rightarrow> jsval \<Rightarrow> string option \<Rightarrow> world \<Rightarrow> outcome \<times> world" where
  "inject cs ob this instance k w =
     (let k' = key_or k (getKeyFromInstance cs instance) in
      case lookup (registrations (containers ob this)) k' of
        Absent \<Rightarrow> (Callback (createUnregisteredError k') Undefined, w)
      | Inherited \<Rightarrow> (Thrown typeError, w)
      | Found registration \<Rightarrow>
          runInjections cs (containers ob this) instance (reg_injections registration)
            Undefined w)"

section \<open>Resolution\<close>

text \<open>The handler configurations a container hands to the builder: the objects its
  list refers to.\<close>

definition handlerConfigsOf :: "objects \<Rightarrow> nat \<Rightarrow> handlerConfig list" where
  "handlerConfigsOf ob this = map (configs ob) (handlerConfigs (containers ob this))"

text \<open>The \<open>instanceof\<close> chain of \<open>resolveSync\<close>, lines 242-249.\<close>

fun constructSync ::
  "collaborators \<Rightarrow> objects \<Rightarrow> nat \<Rightarrow> registration \<Rightarrow> world \<Rightarrow> jsval completion \<times> world" where
  "constructSync cs ob this (InstanceRegistration n l i instance) w = (Returned instance, w)"
| "constructSync cs ob this (TypeRegistration n l i ti) w =
     (case newInstanceSync cs ti (handlerConfigsOf ob this) (containers ob this) (mem w) of
        (r, h) \<Rightarrow> (r, \<lparr> mem = h, log = log w @ [Build (name ti)] \<rparr>))"
| "constructSync cs ob this (FactoryRegistration n l i f) w =
     (case factorySync cs f (containers ob this) (mem w) of
        (r, h) \<Rightarrow> (r, \<lparr> mem = h, log = log w @ [Factory f] \<rparr>))"

text \<open>
  \<open>registration.lifetime.store(instance); return instance\<close>, lines 252-253.
\<close>

definition storeAndReturn ::
  "key \<Rightarrow> registration \<Rightarrow> jsval \<Rightarrow> world \<Rightarrow> jsval completion \<times> world" where
  "storeAndReturn k registration instance w =
     (case store (reg_lifetime registration) instance (mem w) of
        (Threw e, h) \<Rightarrow> (Threw e, \<lparr> mem = h, log = log w @ [Store k instance] \<rparr>)
      | (Returned u, h) \<Rightarrow>
          (Returned instance, \<lparr> mem = h, log = log w @ [Store k instance] \<rparr>))"

text \<open>\<open>resolveSync\<close> from line 237 on, for the registration found under \<open>k\<close>.\<close>

definition resolveRegistrationSync ::
  "collaborators \<Rightarrow> objects \<Rightarrow> nat \<Rightarrow> key \<Rightarrow> registration \<Rightarrow> world
     \<Rightarrow> jsval completion \<times> world" where
  "resolveRegistrationSync cs ob this k registration w =
     (case fetch (reg_lifetime registration) (mem w) of
        (Threw e, h) \<Rightarrow> (Threw e, \<lparr> mem = h, log = log w @ [Fetch k] \<rparr>)
      | (Returned existing, h) \<Rightarrow>
          if truthy existing
          then (Returned existing, \<lparr> mem = h, log = log w @ [Fetch k] \<rparr>)
          else
            case constructSync cs ob this registration
                   \<lparr> mem = h, log = log w @ [Fetch k] \<rparr> of
              (Threw e, w2) \<Rightarrow> (Threw e, w2)
            | (Returned instance, w2) \<Rightarrow>
                (case injectSync cs ob this instance (Some k) w2 of
                   (Threw e, w3) \<Rightarrow> (Threw e, w3)
                 | (Returned u, w3) \<Rightarrow> storeAndReturn k registration instance w3))"

text \<open>\<open>resolveSync(key)\<close>, lines 227-254.\<close>

definition resolveSync ::
  "collaborators \<Rightarrow> objects \<Rightarrow> nat \<Rightarrow> keyarg \<Rightarrow> world \<Rightarrow> jsval completion \<times> world" where
  "resolveSync cs ob this ka w =
     (case lookup (registrations (containers ob this)) (normalizeKey ka) of
        Absent \<Rightarrow> (Threw (createUnregisteredError (normalizeKey ka)), w)
      | Inherited \<Rightarrow> (Threw typeError, w)
      | Found registration \<Rightarrow>
          resolveRegistrationSync cs ob this (normalizeKey ka) registration w)"

text \<open>\<open>tryResolveSync(key)\<close>, lines 261-267.\<close>

definition tryResolveSync ::
  "collaborators \<Rightarrow> objects \<Rightarrow> nat \<Rightarrow> keyarg \<Rightarrow> world \<Rightarrow> jsval completion \<times> world" where
  "tryResolveSync cs ob this ka w =
     (case resolveSync cs ob this ka w of
        (Threw e, w1) \<Rightarrow> (Returned Undefined, w1)
      | (Returned v, w1) \<Rightarrow> (Returned v, w1))"

text \<open>
  The callback that \<open>injectAndReturn\<close> hands to \<open>inject\<close>, lines 203-209: on success it
  stores the instance, whose \<open>store\<close> may throw before the caller's callback is reached.
\<close>

definition storeAndCall ::
  "key \<Rightarrow> registration \<Rightarrow> jsval \<Rightarrow> jsval \<Rightarrow> world \<Rightarrow> outcome \<times> world" where
  "storeAndCall k registration err instance w =
     (if truthy err then (Callback err instance, w)
      else
        case store (reg_lifetime registration) instance (mem w) of
          (Threw e, h) \<Rightarrow> (Thrown e, \<lparr> mem = h, log = log w @ [Store k instance] \<rparr>)
        | (Returned u, h) \<Rightarrow>
            (Callback err instance, \<lparr> mem = h, log = log w @ [Store k instance] \<rparr>))"

text \<open>
  \<open>injectAndReturn(err, instance)\<close>, lines 197-210: the completion callback that
  \<open>resolve\<close> hands to the builder or the factory.
\<close>

definition injectAndReturn ::
  "collaborators \<Rightarrow> objects \<Rightarrow> nat \<Rightarrow> key \<Rightarrow> registration \<Rightarrow> jsval \<Rightarrow> jsval \<Rightarrow> world
     \<Rightarrow> outcome \<times> world" where
  "injectAndReturn cs ob this k registration err instance w =
     (if truthy err then (Callback err Undefined, w)
      else
        case inject cs ob this instance (Some k) w of
          (Thrown e, w1) \<Rightarrow> (Thrown e, w1)
        | (Callback err1 v, w1) \<Rightarrow> storeAndCall k registration err1 instance w1)"

text \<open>
  The \<open>instanceof\<close> chain of \<open>resolve\<close>, lines 212-218: the construction, which throws
  or calls \<open>injectAndReturn(err, instance)\<close>.
\<close>

fun construct ::
  "collaborators \<Rightarrow> objects \<Rightarrow> nat \<Rightarrow> registration \<Rightarrow> world \<Rightarrow> outcome \<times> world" where
  "construct cs ob this (InstanceRegistration n l i instance) w = (Callback Null instance, w)"
| "construct cs ob this (TypeRegistration n l i ti) w =
     (case newInstance cs ti (handlerConfigsOf ob this) (containers ob this) (mem w) of
        (r, h) \<Rightarrow> (r, \<lparr> mem = h, log = log w @ [Build (name ti)] \<rparr>))"
| "construct cs ob this (FactoryRegistration n l i f) w =
     (case factoryAsync cs f (containers ob this) (mem w) of
        (r, h) \<Rightarrow> (r, \<lparr> mem = h, log = log w @ [Factory f] \<rparr>))"

text \<open>\<open>resolve\<close> from line 190 on, for the registration found under \<open>k\<close>.\<close>

definition resolveRegistration ::
  "collaborators \<Rightarrow> objects \<Rightarrow> nat \<Rightarrow> key \<Rightarrow> registration \<Rightarrow> world \<Rightarrow> outcome \<times> world" where
  "resolveRegistration cs ob this k registration w =
     (case fetch (reg_lifetime registration) (mem w) of
        (Threw e, h) \<Rightarrow> (Thrown e, \<lparr> mem = h, log = log w @ [Fetch k] \<rparr>)
      | (Returned existing, h) \<Rightarrow>
          if truthy existing
          then (Callback Null existing, \<lparr> mem = h, log = log w @ [Fetch k] \<rparr>)
          else
            case construct cs ob this registration \<lparr> mem = h, log = log w @ [Fetch k] \<rparr> of
              (Thrown e, w2) \<Rightarrow> (Thrown e, w2)
            | (Callback err instance, w2) \<Rightarrow>
                injectAndReturn cs ob this k registration err instance w2)"

text \<open>\<open>resolve(key, callback)\<close>, lines 179-219: what it does with \<open>callback\<close>.\<close>

definition resolve ::
  "collaborators \<Rightarrow> objects \<Rightarrow> nat \<Rightarrow> keyarg \<Rightarrow> world \<Rightarrow> outcome \<times> world" where
  "resolve cs ob this ka w =
     (case lookup (registrations (containers ob this)) (normalizeKey ka) of
        Absent \<Rightarrow> (Callback (createUnregisteredError (normalizeKey ka)) Undefined, w)
      | Inherited \<Rightarrow> (Thrown typeError, w)
      | Found registration \<Rightarrow>
          resolveRegistration cs ob this (normalizeKey ka) registration w)"

section \<open>Interception\<close>

text \<open>
  What the language does when a predicate closure runs: \<open>instance instanceof t\<close>, which
  throws when \<open>t\<close> is not callable, and the call of a user function. Both are parameters.
\<close>

record runtime =
  instanceOf :: "jsval \<Rightarrow> jsval \<Rightarrow> bool completion"
  callFunction :: "nat \<Rightarrow> jsval \<Rightarrow> string \<Rightarrow> jsval completion"

text \<open>\<open>matcher[i]\<close>: \<open>undefined\<close> beyond the end of the array.\<close>

definition element :: "jsval list \<Rightarrow> nat \<Rightarrow> jsval" where
  "element xs i = (if i < length xs then xs ! i else Undefined)"

text \<open>The predicate chosen at lines 322-336.\<close>

fun predicateOf :: "runtime \<Rightarrow> jsval \<Rightarrow> jsval \<Rightarrow> string \<Rightarrow> jsval completion" where
  "predicateOf rt (JStr s) = (\<lambda>instance methodName. Returned (JBool (methodName = s)))"
| "predicateOf rt (JArr xs) =
     (\<lambda>instance methodName.
        case instanceOf rt instance (element xs 0) of
          Threw e \<Rightarrow> Threw e
        | Returned b \<Rightarrow>
            Returned (JBool (b \<and> (\<not> truthy (element xs 1) \<or> element xs 1 = JStr methodName))))"
| "predicateOf rt (JFun f) = callFunction rt f"
| "predicateOf rt m = (\<lambda>instance methodName. Returned (JBool (truthy m)))"

text \<open>
  \<open>intercept(matcher, ...handlers)\<close>, lines 321-357. The call allocates the handler
  configuration and returns the object \<open>{sync, async}\<close>, whose two functions close over
  the container and the configuration: the pair of references below.
\<close>

definition intercept ::
  "runtime \<Rightarrow> jsval \<Rightarrow> nat list \<Rightarrow> nat \<Rightarrow> objects \<Rightarrow> (nat \<times> nat) \<times> objects" where
  "intercept rt m hs this ob =
     ((this, fresh ob),
      ob\<lparr> configs := (configs ob)(fresh ob :=
             \<lparr> handlers = hs, matcher = predicateOf rt m, isAsync = None \<rparr>),
          fresh := Suc (fresh ob) \<rparr>)"

definition commit :: "bool \<Rightarrow> nat \<times> nat \<Rightarrow> objects \<Rightarrow> nat \<times> objects" where
  "commit a p ob =
     (let (container, handlerConfig) = p;
          ob1 = ob\<lparr> configs := (configs ob)(handlerConfig :=
                      (configs ob handlerConfig)\<lparr> isAsync := Some a \<rparr>) \<rparr>
      in (container,
          ob1\<lparr> containers := (containers ob1)(container :=
                 (containers ob1 container)\<lparr> handlerConfigs :=
                    handlerConfigs (containers ob1 container) @ [handlerConfig] \<rparr>) \<rparr>))"

text \<open>The returned \<open>sync()\<close>, lines 346-350, and \<open>async()\<close>, lines 351-355.\<close>

definition sync :: "nat \<times> nat \<Rightarrow> objects \<Rightarrow> nat \<times> objects" where
  "sync p ob = commit False p ob"

definition async :: "nat \<times> nat \<Rightarrow> objects \<Rightarrow> nat \<times> objects" where
  "async p ob = commit True p ob"

text \<open>Every handler configuration a container refers to has been allocated.\<close>

definition config_wf :: "nat \<Rightarrow> objects \<Rightarrow> bool" where
  "config_wf this ob = (\<forall>r \<in> set (handlerConfigs (containers ob this)). r < fresh ob)"

section \<open>Child containers\<close>

text \<open>
  The three copying loops of \<open>createChildContainer\<close>, lines 368-378. Each copies
  references: the child holds the parent's registration objects (and with them their
  lifetimes), edge arrays and handler configuration objects.
\<close>

definition copy_registration :: "nat \<Rightarrow> nat \<Rightarrow> objects \<Rightarrow> key \<Rightarrow> objects" where
  "copy_registration self child ob k =
     (case map_of (registrations (containers ob self)) k of
        None \<Rightarrow> ob
      | Some r \<Rightarrow> set_registration child k r ob)"

definition copy_edges :: "nat \<Rightarrow> nat \<Rightarrow> objects \<Rightarrow> key \<Rightarrow> objects" where
  "copy_edges self child ob k =
     (case map_of (graph (containers ob self)) k of
        None \<Rightarrow> ob
      | Some r \<Rightarrow>
          ob\<lparr> containers := (containers ob)(child :=
                (containers ob child)\<lparr> graph :=
                   AList.update k r (graph (containers ob child)) \<rparr>) \<rparr>)"

definition copy_config :: "nat \<Rightarrow> objects \<Rightarrow> nat \<Rightarrow> objects" where
  "copy_config child ob config =
     ob\<lparr> containers := (containers ob)(child :=
           (containers ob child)\<lparr> handlerConfigs :=
              handlerConfigs (containers ob child) @ [config] \<rparr>) \<rparr>"

text \<open>\<open>createChildContainer()\<close>, lines 364-381.\<close>

definition createChildContainer :: "nat \<Rightarrow> objects \<Rightarrow> nat \<times> objects" where
  "createChildContainer self ob =
     (let (childContainer, ob1) = newContainer (Some self) ob;
          ob2 = foldl (copy_registration self childContainer) ob1
                  (object_keys (registrations (containers ob1 self)));
          ob3 = foldl (copy_edges self childContainer) ob2
                  (map fst (graph (containers ob2 self)));
          ob4 = foldl (copy_config childContainer) ob3
                  (handlerConfigs (containers ob3 self))
      in (childContainer, ob4))"

section \<open>Example inputs\<close>

text \<open>
  Concrete stores, lifetimes and collaborators at which the properties below are
  evaluated. \<open>cell_lifetime a\<close> caches in heap cell \<open>a\<close>. Factory 0 succeeds, any other
  fails with \<open>'fail'\<close> (thrown when called without a callback, passed to the callback
  otherwise); injection 0 succeeds and writes cell 5, any other fails with \<open>'fail'\<close>.
  With \<open>throwing_collaborators\<close> the factories throw also when given a callback, and so
  does injection 2.
\<close>

definition example_objects :: objects where
  "example_objects =
     \<lparr> containers = (\<lambda>r. \<lparr> parent = None, registrations = [], handlerConfigs = [], graph = [] \<rparr>),
       arrays = (\<lambda>r. []),
       configs = (\<lambda>r. \<lparr> handlers = [], matcher = (\<lambda>i m. Returned (JBool False)), isAsync = None \<rparr>),
       fresh = 0 \<rparr>"

definition example_world :: world where
  "example_world = \<lparr> mem = (\<lambda>a. Undefined), log = [] \<rparr>"

definition cell_lifetime :: "nat \<Rightarrow> lifetime" where
  "cell_lifetime a =
     \<lparr> fetch = (\<lambda>h. (Returned (h a), h)), store = (\<lambda>v h. (Returned (), h(a := v))) \<rparr>"

definition example_collaborators :: collaborators where
  "example_collaborators =
     \<lparr> newInstanceSync = (\<lambda>ti hcs c h. (Returned (JObj 1), h)),
       newInstance = (\<lambda>ti hcs c h. (Callback Null (JObj 1), h)),
       factorySync = (\<lambda>f c h. if f = 0 then (Returned (JObj 2), h) else (Threw (JStr ''fail''), h)),
       factoryAsync = (\<lambda>f c h. if f = 0 then (Callback Null (JObj 2), h)
                               else (Callback (JStr ''fail'') Undefined, h)),
       injectionSync = (\<lambda>i v c h. if i = 0 then (Returned (), h(5 := JBool True))
                                   else (Threw (JStr ''fail''), h)),
       injectionAsync = (\<lambda>i v c h. if i = 0 then (Callback Undefined Undefined, h(5 := JBool True))
                                    else (Callback (JStr ''fail'') Undefined, h)),
       getKeyFromInstance = (\<lambda>v. ''Object'') \<rparr>"

text \<open>A store with one container, 0, which holds under X the instance \<open>JObj 7\<close> with
  the caching lifetime of cell 3 and the given injections.\<close>

definition example_store :: "nat list \<Rightarrow> objects" where
  "example_store injs =
     snd (registerInstance (\<lambda>v. ''Object'') (JObj 7)
            (OptionsObject \<lparr> okey = Some ''X'', olifetime = Some (cell_lifetime 3),
                             oinjections = Some injs \<rparr>)
            0 (snd (newContainer None example_objects)))"

definition cached_world :: "jsval \<Rightarrow> world" where
  "cached_world v = \<lparr> mem = (\<lambda>a. Undefined)(3 := v), log = [] \<rparr>"

definition example_factory_store :: "nat \<Rightarrow> objects" where
  "example_factory_store f =
     snd (registerFactory f (Positional (Some ''F'') None [])
            0 (snd (newContainer None example_objects)))"


text \<open>
  An extractor: constructor 0 is \<open>Foo(Bar)\<close>, 1 is \<open>Bar(Foo)\<close>, 2 is \<open>Selfish(Selfish)\<close>,
  3 is \<open>Baz()\<close>, 4 is \<open>Qux(Baz)\<close>, and any other is an anonymous function without
  parameters, which needs a key.
\<close>

definition example_getTypeInfo :: extractor where
  "example_getTypeInfo ctor k =
     (if ctor = 0 then Returned \<lparr> name = key_or k ''Foo'', args = [''Bar''] \<rparr>
      else if ctor = 1 then Returned \<lparr> name = key_or k ''Bar'', args = [''Foo''] \<rparr>
      else if ctor = 2 then Returned \<lparr> name = key_or k ''Selfish'', args = [''Selfish''] \<rparr>
      else if ctor = 3 then Returned \<lparr> name = key_or k ''Baz'', args = [] \<rparr>
      else if ctor = 4 then Returned \<lparr> name = key_or k ''Qux'', args = [''Baz''] \<rparr>
      else if key_falsy k
        then Threw (JError ''A resolution key must be given if a named function is not'')
        else Returned \<lparr> name = key_or k [], args = [] \<rparr>)"

definition empty_store :: objects where
  "empty_store = snd (newContainer None example_objects)"

definition foo_store :: objects where
  "foo_store = snd (registerType example_getTypeInfo 0 NoArguments 0 empty_store)"

text \<open>A store whose container 0 holds under T the type \<open>Baz()\<close> with the caching lifetime
  of cell 3 and the injection 0.\<close>

definition example_type_store :: objects where
  "example_type_store =
     snd (registerType example_getTypeInfo 3
            (OptionsObject \<lparr> okey = Some ''T'', olifetime = Some (cell_lifetime 3),
                             oinjections = Some [0] \<rparr>)
            0 empty_store)"


text \<open>
  Container 0 of \<open>foo_store\<close> forked into container 2, and the child then registering
  \<open>Qux(Baz)\<close> under the key Foo.
\<close>

definition forked_store :: objects where
  "forked_store = snd (createChildContainer 0 foo_store)"

definition child_foo_store :: objects where
  "child_foo_store =
     snd (registerType example_getTypeInfo 4 (Positional (Some ''Foo'') None []) 2 forked_store)"

text \<open>
  A builder that builds from the instances registered, in the container it is given,
  under the dependencies of the type.
\<close>

definition resolving_collaborators :: collaborators where
  "resolving_collaborators =
     example_collaborators
       \<lparr> newInstanceSync := (\<lambda>ti hcs c h.
            (Returned (JArr (map (\<lambda>d. case map_of (registrations c) d of
                                         Some (InstanceRegistration n l i v) \<Rightarrow> v
                                       | _ \<Rightarrow> Undefined) (args ti))), h)) \<rparr>"

text \<open>
  A parent, container 0, with the instance \<open>JObj 7\<close> under Bar and the type \<open>Foo(Bar)\<close>
  under a caching lifetime; its child, container 2; and the child after registering the
  instance \<open>JObj 8\<close> under Bar.
\<close>

definition shared_parent_store :: objects where
  "shared_parent_store =
     snd (registerType example_getTypeInfo 0
            (OptionsObject \<lparr> okey = None, olifetime = Some (cell_lifetime 3),
                             oinjections = None \<rparr>)
            0 (snd (registerInstance (getKeyFromInstance example_collaborators) (JObj 7)
                      (Positional (Some ''Bar'') None []) 0 empty_store)))"

definition shared_fork_store :: objects where
  "shared_fork_store = snd (createChildContainer 0 shared_parent_store)"

definition shared_child_store :: objects where
  "shared_child_store =
     snd (registerInstance (getKeyFromInstance example_collaborators) (JObj 8)
            (Positional (Some ''Bar'') None []) 2 shared_fork_store)"

text \<open>A runtime in which an object is an instance of the function with its own number,
  and every user predicate matches the method \<open>run\<close>.\<close>

definition example_runtime :: runtime where
  "example_runtime =
     \<lparr> instanceOf = (\<lambda>v t. case t of JFun f \<Rightarrow> Returned (v = JObj f)
                                | _ \<Rightarrow> Threw (JError ''TypeError'')),
       callFunction = (\<lambda>f v m. Returned (JBool (m = ''run''))) \<rparr>"

text \<open>
  An interception on container 0 committed with \<open>sync()\<close>, the container then forked into
  container 2, and \<open>async()\<close> of the same interception called afterwards.
\<close>

definition intercepted_store :: objects where
  "intercepted_store =
     snd (sync (fst (intercept example_runtime (JStr ''foo'') [1] 0 empty_store))
            (snd (intercept example_runtime (JStr ''foo'') [1] 0 empty_store)))"

definition intercepted_fork_store :: objects where
  "intercepted_fork_store = snd (createChildContainer 0 intercepted_store)"

definition recommitted_store :: objects where
  "recommitted_store =
     snd (async (fst (intercept example_runtime (JStr ''foo'') [1] 0 empty_store))
            intercepted_fork_store)"

section \<open>Properties\<close>

lemma set_registration_lookup:
  "map_of (registrations (containers (set_registration this k r ob) this)) =
     (map_of (registrations (containers ob this)))(k \<mapsto> r)"
  by (simp add: set_registration_def update_conv')

lemma set_registration_others:
  "c \<noteq> this \<Longrightarrow> containers (set_registration this k r ob) c = containers ob c"
  by (simp add: set_registration_def)

lemma add_edge_registrations:
  "registrations (containers (add_edge this t ob d) c) = registrations (containers ob c)"
  by (simp add: add_edge_def graph_add_def Let_def split: option.split)

lemma add_edges_registrations:
  "registrations (containers (foldl (add_edge this t) ob ds) c) = registrations (containers ob c)"
  by (induction ds arbitrary: ob) (simp_all add: add_edge_registrations)

lemma add_edge_others:
  "c \<noteq> this \<Longrightarrow> containers (add_edge this t ob d) c = containers ob c"
  by (simp add: add_edge_def graph_add_def Let_def split: option.split)

lemma add_edges_others:
  "c \<noteq> this \<Longrightarrow> containers (foldl (add_edge this t) ob ds) c = containers ob c"
  by (induction ds arbitrary: ob) (simp_all add: add_edge_others)

lemma getChain_throws_cyclic:
  "getChain g ob k = Threw e \<Longrightarrow> \<exists>a. e = cyclicError a k"
  by (auto simp: getChain_def split: list.splits)

lemma registerType_outcome:
  assumes "getTypeInfo ctor (okey (resolveSignatureToOptions sig)) = Returned ti"
  shows "fst (registerType getTypeInfo ctor sig this ob) = Returned this
       \<or> (\<exists>a. fst (registerType getTypeInfo ctor sig this ob) = Threw (cyclicError a (name ti)))"
  using assms getChain_throws_cyclic
  by (fastforce simp: registerType_def Let_def split: completion.splits)

lemma registerType_lookup:
  assumes "getTypeInfo ctor (okey (resolveSignatureToOptions sig)) = Returned ti"
  shows "map_of (registrations (containers (snd (registerType getTypeInfo ctor sig this ob)) this)) =
           (map_of (registrations (containers ob this)))(name ti \<mapsto>
              TypeRegistration (name ti)
                (lifetime_or_default (olifetime (resolveSignatureToOptions sig)))
                (injections_or_default (oinjections (resolveSignatureToOptions sig))) ti)"
  using assms
  by (simp add: registerType_def Let_def add_edges_registrations set_registration_lookup
      split: completion.splits)

lemma registerType_others:
  assumes "c \<noteq> this"
  shows "containers (snd (registerType getTypeInfo ctor sig this ob)) c = containers ob c"
  using assms
  by (simp add: registerType_def Let_def add_edges_others set_registration_others
      split: completion.splits)

text \<open>
  C1, as the code has it. When \<open>registerType\<close> throws because the extractor throws, the
  store is unchanged. When it throws after the extractor has returned, the error is the
  cycle error and the new registration is already stored under its key; the entries
  under every other key and all other containers are unchanged.
\<close>

theorem failed_registerType_store:
  assumes "registerType getTypeInfo ctor sig this ob = (Threw e, ob')"
  shows "((\<forall>ti. getTypeInfo ctor (okey (resolveSignatureToOptions sig)) \<noteq> Returned ti)
           \<longrightarrow> ob' = ob)
       \<and> (getTypeInfo ctor (okey (resolveSignatureToOptions sig)) = Returned ti
           \<longrightarrow> (\<exists>a. e = cyclicError a (name ti))
             \<and> map_of (registrations (containers ob' this)) (name ti) =
                 Some (TypeRegistration (name ti)
                         (lifetime_or_default (olifetime (resolveSignatureToOptions sig)))
                         (injections_or_default (oinjections (resolveSignatureToOptions sig))) ti)
             \<and> (\<forall>k. k \<noteq> name ti \<longrightarrow>
                    map_of (registrations (containers ob' this)) k =
                    map_of (registrations (containers ob this)) k)
             \<and> (\<forall>c. c \<noteq> this \<longrightarrow> containers ob' c = containers ob c))"
proof (intro conjI impI)
  assume "\<forall>ti. getTypeInfo ctor (okey (resolveSignatureToOptions sig)) \<noteq> Returned ti"
  with assms show "ob' = ob"
    by (auto simp: registerType_def Let_def split: completion.splits)
next
  assume ti: "getTypeInfo ctor (okey (resolveSignatureToOptions sig)) = Returned ti"
  have ob': "ob' = snd (registerType getTypeInfo ctor sig this ob)"
    using assms by simp
  note lk = registerType_lookup [where getTypeInfo = getTypeInfo and ctor = ctor and sig = sig,
      OF ti]
  from registerType_outcome [where getTypeInfo = getTypeInfo and ctor = ctor and sig = sig,
      OF ti, of this ob] assms
  show "\<exists>a. e = cyclicError a (name ti)" by auto
  show "map_of (registrations (containers ob' this)) (name ti) =
          Some (TypeRegistration (name ti)
                  (lifetime_or_default (olifetime (resolveSignatureToOptions sig)))
                  (injections_or_default (oinjections (resolveSignatureToOptions sig))) ti)"
    by (simp add: ob' lk)
  show "\<forall>k. k \<noteq> name ti \<longrightarrow>
          map_of (registrations (containers ob' this)) k =
          map_of (registrations (containers ob this)) k"
    by (simp add: ob' lk)
  show "\<forall>c. c \<noteq> this \<longrightarrow> containers ob' c = containers ob c"
    by (simp add: ob' registerType_others)
qed

lemma selfish_registration:
  "registerType example_getTypeInfo 2 NoArguments 0 empty_store =
     (Threw (cyclicError ''Selfish'' ''Selfish''),
      snd (registerType example_getTypeInfo 2 NoArguments 0 empty_store))"
  by (simp add: registerType_def example_getTypeInfo_def empty_store_def newContainer_def
      example_objects_def set_registration_def add_edge_def graph_add_def getChain_def
      edge_list_def reachable_def key_or_def Let_def)

text \<open>
  C1 as stated fails: registering a type that depends on itself throws the cycle error
  and leaves the registration, absent before, in the container.
\<close>

theorem failed_registerType_commits_counterexample:
  "fst (registerType example_getTypeInfo 2 NoArguments 0 empty_store) =
     Threw (cyclicError ''Selfish'' ''Selfish'')
   \<and> map_of (registrations (containers empty_store 0)) ''Selfish'' = None
   \<and> map_of (registrations (containers
        (snd (registerType example_getTypeInfo 2 NoArguments 0 empty_store)) 0)) ''Selfish'' =
       Some (TypeRegistration ''Selfish'' Transient []
               \<lparr> name = ''Selfish'', args = [''Selfish''] \<rparr>)"
  by (simp add: registerType_def example_getTypeInfo_def empty_store_def newContainer_def
      example_objects_def set_registration_def add_edge_def graph_add_def getChain_def
      edge_list_def reachable_def key_or_def Let_def lifetime_or_default_def
      injections_or_default_def)

theorem failed_registerType_store_witness:
  "registerType example_getTypeInfo 2 NoArguments 0 empty_store =
     (Threw (cyclicError ''Selfish'' ''Selfish''),
      snd (registerType example_getTypeInfo 2 NoArguments 0 empty_store))
   \<and> example_getTypeInfo 2 (okey (resolveSignatureToOptions NoArguments)) =
       Returned \<lparr> name = ''Selfish'', args = [''Selfish''] \<rparr>
   \<and> map_of (registrations (containers
        (snd (registerType example_getTypeInfo 2 NoArguments 0 empty_store)) 0)) ''Selfish'' =
       Some (TypeRegistration ''Selfish'' Transient []
               \<lparr> name = ''Selfish'', args = [''Selfish''] \<rparr>)
   \<and> map_of (registrations (containers
        (snd (registerType example_getTypeInfo 2 NoArguments 0 empty_store)) 0)) ''Other'' = None"
proof -
  have ti: "example_getTypeInfo 2 (okey (resolveSignatureToOptions NoArguments)) =
       Returned \<lparr> name = ''Selfish'', args = [''Selfish''] \<rparr>"
    by (simp add: example_getTypeInfo_def key_or_def)
  have e: "map_of (registrations (containers empty_store 0)) ''Other'' = None"
    by (simp add: empty_store_def newContainer_def example_objects_def)
  show ?thesis
    using failed_registerType_store [OF selfish_registration,
        where ti = "\<lparr> name = ''Selfish'', args = [''Selfish''] \<rparr>"]
      selfish_registration ti e
    by (simp add: lifetime_or_default_def injections_or_default_def)
qed

lemma lookup_Found:
  "map_of regs k = Some r \<Longrightarrow> lookup regs k = Found r"
  by (simp add: lookup_def)

lemma example_store_X:
  "map_of (registrations (containers (example_store injs) 0)) ''X'' =
     Some (InstanceRegistration ''X'' (cell_lifetime 3) injs (JObj 7))"
  by (simp add: example_store_def registerInstance_def newContainer_def example_objects_def
      set_registration_def key_or_def lifetime_or_default_def injections_or_default_def Let_def)

lemma example_factory_store_F:
  "map_of (registrations (containers (example_factory_store f) 0)) ''F'' =
     Some (FactoryRegistration ''F'' Transient [] f)"
  by (simp add: example_factory_store_def registerFactory_def newContainer_def example_objects_def
      set_registration_def key_or_def key_falsy_def lifetime_or_default_def
      injections_or_default_def Let_def)

lemma example_type_store_T:
  "map_of (registrations (containers example_type_store 0)) ''T'' =
     Some (TypeRegistration ''T'' (cell_lifetime 3) [0] \<lparr> name = ''T'', args = [] \<rparr>)"
  "handlerConfigsOf example_type_store 0 = []"
  by (simp_all add: example_type_store_def registerType_def example_getTypeInfo_def
      empty_store_def newContainer_def example_objects_def set_registration_def key_or_def
      lifetime_or_default_def injections_or_default_def getChain_def edge_list_def
      handlerConfigsOf_def Let_def)

text \<open>
  For a key under which \<open>registrations\<close> holds nothing, own or inherited, the three
  calls report the unregistered key.
\<close>

lemma absent_key_fails:
  assumes "lookup (registrations (containers ob this)) (normalizeKey ka) = Absent"
  shows "resolveSync cs ob this ka w =
           (Threw (JError (''Nothing with key '' @ dquote @ normalizeKey ka @ dquote
                             @ '' is registered in the container'')), w)
       \<and> resolve cs ob this ka w =
           (Callback (JError (''Nothing with key '' @ dquote @ normalizeKey ka @ dquote
                             @ '' is registered in the container'')) Undefined, w)
       \<and> tryResolveSync cs ob this ka w = (Returned Undefined, w)"
  using assms
  by (simp add: resolveSync_def resolve_def tryResolveSync_def createUnregisteredError_def)

text \<open>
  C5 fails on the code. \<open>constructor\<close> is not registered in a new container, yet
  \<open>registrations['constructor']\<close> is the inherited \<open>Object\<close>, which is truthy: the guards
  at lines 185 and 233 are skipped, \<open>resolveSync\<close> throws a \<open>TypeError\<close> that is not the
  unregistered-key error, and \<open>resolve\<close> throws instead of calling back. Only
  \<open>tryResolveSync\<close> does what the claim says.
\<close>

theorem inherited_key_skips_unregistered_guard:
  "map_of (registrations (containers empty_store 0)) ''constructor'' = None
   \<and> lookup (registrations (containers empty_store 0)) ''constructor'' = Inherited
   \<and> resolveSync example_collaborators empty_store 0 (KeyString ''constructor'') example_world =
       (Threw typeError, example_world)
   \<and> typeError \<noteq> createUnregisteredError ''constructor''
   \<and> resolve example_collaborators empty_store 0 (KeyString ''constructor'') example_world =
       (Thrown typeError, example_world)
   \<and> tryResolveSync example_collaborators empty_store 0 (KeyString ''constructor'')
        example_world = (Returned Undefined, example_world)
   \<and> isRegistered (KeyString ''toString'') 0 empty_store"
  by (simp add: resolveSync_def resolve_def tryResolveSync_def isRegistered_def lookup_def
      object_prototype_names_def empty_store_def newContainer_def example_objects_def
      typeError_def createUnregisteredError_def)

text \<open>
  C6, as the code has it. When the lifetime of the registration fetches a truthy value,
  both \<open>resolveSync\<close> and \<open>resolve\<close> return it at once: the only call made is the fetch,
  so no builder, factory or injection runs and the heap is as the fetch left it.
\<close>

theorem cache_hit_returns_existing:
  assumes "lookup (registrations (containers ob this)) (normalizeKey ka) = Found r"
    and "fetch (reg_lifetime r) (mem w) = (Returned existing, h)"
    and "truthy existing"
  shows "resolveSync cs ob this ka w =
           (Returned existing, \<lparr> mem = h, log = log w @ [Fetch (normalizeKey ka)] \<rparr>)
       \<and> resolve cs ob this ka w =
           (Callback Null existing, \<lparr> mem = h, log = log w @ [Fetch (normalizeKey ka)] \<rparr>)"
  using assms
  by (simp add: resolveSync_def resolve_def resolveRegistrationSync_def resolveRegistration_def)

theorem cache_hit_returns_existing_witness:
  "lookup (registrations (containers (example_store [0]) 0)) (normalizeKey (KeyString ''X'')) =
     Found (InstanceRegistration ''X'' (cell_lifetime 3) [0] (JObj 7))
   \<and> fetch (reg_lifetime (InstanceRegistration ''X'' (cell_lifetime 3) [0] (JObj 7)))
        (mem (cached_world (JObj 9))) = (Returned (JObj 9), mem (cached_world (JObj 9)))
   \<and> truthy (JObj 9)
   \<and> resolveSync example_collaborators (example_store [0]) 0 (KeyString ''X'') (cached_world (JObj 9)) =
       (Returned (JObj 9), \<lparr> mem = mem (cached_world (JObj 9)), log = [Fetch ''X''] \<rparr>)
   \<and> resolve example_collaborators (example_store [0]) 0 (KeyString ''X'') (cached_world (JObj 9)) =
       (Callback Null (JObj 9), \<lparr> mem = mem (cached_world (JObj 9)), log = [Fetch ''X''] \<rparr>)"
proof -
  have a: "lookup (registrations (containers (example_store [0]) 0)) (normalizeKey (KeyString ''X'')) =
     Found (InstanceRegistration ''X'' (cell_lifetime 3) [0] (JObj 7))"
    by (simp add: example_store_X lookup_Found)
  have b: "fetch (reg_lifetime (InstanceRegistration ''X'' (cell_lifetime 3) [0] (JObj 7)))
        (mem (cached_world (JObj 9))) = (Returned (JObj 9), mem (cached_world (JObj 9)))"
    by (simp add: cell_lifetime_def cached_world_def)
  have c: "truthy (JObj 9)" by simp
  show ?thesis
    using a b c cache_hit_returns_existing [OF a b c, of example_collaborators]
    by (simp add: cached_world_def)
qed

text \<open>
  C6 as stated fails for a cached instance that is falsy: with \<open>0\<close> in the cache, the
  builder and the injection run and the new instance replaces it.
\<close>

theorem falsy_cached_instance_counterexample:
  "lookup (registrations (containers example_type_store 0)) ''T'' =
     Found (TypeRegistration ''T'' (cell_lifetime 3) [0] \<lparr> name = ''T'', args = [] \<rparr>)
   \<and> fetch (cell_lifetime 3) (mem (cached_world (JNum 0))) =
       (Returned (JNum 0), mem (cached_world (JNum 0)))
   \<and> resolveSync example_collaborators example_type_store 0 (KeyString ''T'')
        (cached_world (JNum 0)) =
       (Returned (JObj 1),
        \<lparr> mem = (\<lambda>a. Undefined)(5 := JBool True, 3 := JObj 1),
          log = [Fetch ''T'', Build ''T'', Inject 0, Store ''T'' (JObj 1)] \<rparr>)
   \<and> log (snd (resolve example_collaborators example_type_store 0 (KeyString ''T'')
                 (cached_world (JNum 0)))) =
       [Fetch ''T'', Build ''T'', Inject 0, Store ''T'' (JObj 1)]
   \<and> (\<exists>err. fst (resolve example_collaborators example_type_store 0 (KeyString ''T'')
                 (cached_world (JNum 0))) = Callback err (JObj 1))"
  by (simp add: resolveSync_def resolve_def resolveRegistrationSync_def resolveRegistration_def
      injectSync_def inject_def injectAndReturn_def storeAndReturn_def storeAndCall_def
      key_or_def lookup_Found example_type_store_T cell_lifetime_def cached_world_def
      example_collaborators_def fun_upd_twist)

text \<open>
  C10. When the lifetime fetches a falsy value (such as \<open>false\<close>, \<open>0\<close>, the empty string
  or \<open>null\<close>), \<open>resolveSync\<close> and \<open>resolve\<close> go on as on a cache miss: the builder, or
  the factory, is called again, its instance goes through the injections of the
  registration and, on success, is stored.
\<close>

theorem falsy_fetch_is_cache_miss:
  assumes "lookup (registrations (containers ob this)) (normalizeKey ka) = Found r"
    and "fetch (reg_lifetime r) (mem w) = (Returned existing, h)"
    and "\<not> truthy existing"
  shows "(r = TypeRegistration n l i ti \<longrightarrow>
            (newInstanceSync cs ti (handlerConfigsOf ob this) (containers ob this) h =
               (Returned inst, h1)
             \<longrightarrow> resolveSync cs ob this ka w =
                   (case injectSync cs ob this inst (Some (normalizeKey ka))
                           \<lparr> mem = h1,
                             log = log w @ [Fetch (normalizeKey ka), Build (name ti)] \<rparr> of
                      (Threw e, w3) \<Rightarrow> (Threw e, w3)
                    | (Returned u, w3) \<Rightarrow> storeAndReturn (normalizeKey ka) r inst w3))
          \<and> (newInstance cs ti (handlerConfigsOf ob this) (containers ob this) h =
               (Callback err inst, h1)
             \<longrightarrow> resolve cs ob this ka w =
                   injectAndReturn cs ob this (normalizeKey ka) r err inst
                     \<lparr> mem = h1, log = log w @ [Fetch (normalizeKey ka), Build (name ti)] \<rparr>))
       \<and> (r = FactoryRegistration n l i f \<longrightarrow>
            (factorySync cs f (containers ob this) h = (Returned inst, h1)
             \<longrightarrow> resolveSync cs ob this ka w =
                   (case injectSync cs ob this inst (Some (normalizeKey ka))
                           \<lparr> mem = h1, log = log w @ [Fetch (normalizeKey ka), Factory f] \<rparr> of
                      (Threw e, w3) \<Rightarrow> (Threw e, w3)
                    | (Returned u, w3) \<Rightarrow> storeAndReturn (normalizeKey ka) r inst w3))
          \<and> (factoryAsync cs f (containers ob this) h = (Callback err inst, h1)
             \<longrightarrow> resolve cs ob this ka w =
                   injectAndReturn cs ob this (normalizeKey ka) r err inst
                     \<lparr> mem = h1, log = log w @ [Fetch (normalizeKey ka), Factory f] \<rparr>))
       \<and> (r = InstanceRegistration n l i v \<longrightarrow>
            resolveSync cs ob this ka w =
              (case injectSync cs ob this v (Some (normalizeKey ka))
                      \<lparr> mem = h, log = log w @ [Fetch (normalizeKey ka)] \<rparr> of
                 (Threw e, w3) \<Rightarrow> (Threw e, w3)
               | (Returned u, w3) \<Rightarrow> storeAndReturn (normalizeKey ka) r v w3)
          \<and> resolve cs ob this ka w =
              injectAndReturn cs ob this (normalizeKey ka) r Null v
                \<lparr> mem = h, log = log w @ [Fetch (normalizeKey ka)] \<rparr>)
       \<and> (normalizeKey ka \<noteq> [] \<longrightarrow>
            injectSync cs ob this inst (Some (normalizeKey ka)) w2 =
              runInjectionsSync cs (containers ob this) inst (reg_injections r) w2
          \<and> inject cs ob this inst (Some (normalizeKey ka)) w2 =
              runInjections cs (containers ob this) inst (reg_injections r) Undefined w2)
       \<and> \<not> truthy (JBool False) \<and> \<not> truthy (JNum 0) \<and> \<not> truthy (JStr '''') \<and> \<not> truthy Null"
proof -
  have inj: "normalizeKey ka \<noteq> [] \<longrightarrow>
            injectSync cs ob this inst (Some (normalizeKey ka)) w2 =
              runInjectionsSync cs (containers ob this) inst (reg_injections r) w2
          \<and> inject cs ob this inst (Some (normalizeKey ka)) w2 =
              runInjections cs (containers ob this) inst (reg_injections r) Undefined w2"
    using assms(1) by (simp add: injectSync_def inject_def key_or_def)
  have S: "resolveSync cs ob this ka w =
           (case constructSync cs ob this r
                   \<lparr> mem = h, log = log w @ [Fetch (normalizeKey ka)] \<rparr> of
              (Threw e, w2) \<Rightarrow> (Threw e, w2)
            | (Returned instance, w2) \<Rightarrow>
                (case injectSync cs ob this instance (Some (normalizeKey ka)) w2 of
                   (Threw e, w3) \<Rightarrow> (Threw e, w3)
                 | (Returned u, w3) \<Rightarrow> storeAndReturn (normalizeKey ka) r instance w3))"
    using assms by (simp add: resolveSync_def resolveRegistrationSync_def)
  have R: "resolve cs ob this ka w =
           (case construct cs ob this r \<lparr> mem = h, log = log w @ [Fetch (normalizeKey ka)] \<rparr> of
              (Thrown e, w2) \<Rightarrow> (Thrown e, w2)
            | (Callback err instance, w2) \<Rightarrow>
                injectAndReturn cs ob this (normalizeKey ka) r err instance w2)"
    using assms by (simp add: resolve_def resolveRegistration_def)
  show ?thesis
    unfolding S R using inj by auto
qed

theorem falsy_fetch_is_cache_miss_witness:
  "lookup (registrations (containers example_type_store 0)) (normalizeKey (KeyString ''T'')) =
     Found (TypeRegistration ''T'' (cell_lifetime 3) [0] \<lparr> name = ''T'', args = [] \<rparr>)
   \<and> fetch (cell_lifetime 3) (mem (cached_world (JNum 0))) =
       (Returned (JNum 0), mem (cached_world (JNum 0)))
   \<and> \<not> truthy (JNum 0)
   \<and> newInstanceSync example_collaborators \<lparr> name = ''T'', args = [] \<rparr>
        (handlerConfigsOf example_type_store 0) (containers example_type_store 0)
        (mem (cached_world (JNum 0))) = (Returned (JObj 1), mem (cached_world (JNum 0)))
   \<and> resolveSync example_collaborators example_type_store 0 (KeyString ''T'')
        (cached_world (JNum 0)) =
       (Returned (JObj 1),
        \<lparr> mem = (\<lambda>a. Undefined)(5 := JBool True, 3 := JObj 1),
          log = [Fetch ''T'', Build ''T'', Inject 0, Store ''T'' (JObj 1)] \<rparr>)
   \<and> log (snd (resolve example_collaborators example_type_store 0 (KeyString ''T'')
                 (cached_world (JNum 0)))) =
       [Fetch ''T'', Build ''T'', Inject 0, Store ''T'' (JObj 1)]
   \<and> resolveSync example_collaborators (example_factory_store 0) 0 (KeyString ''F'')
        (cached_world (JNum 0)) =
       (Returned (JObj 2),
        \<lparr> mem = mem (cached_world (JNum 0)),
          log = [Fetch ''F'', Factory 0, Store ''F'' (JObj 2)] \<rparr>)
   \<and> resolveSync example_collaborators (example_store [0]) 0 (KeyString ''X'')
        (cached_world (JStr '''')) =
       (Returned (JObj 7),
        \<lparr> mem = (\<lambda>a. Undefined)(5 := JBool True, 3 := JObj 7),
          log = [Fetch ''X'', Inject 0, Store ''X'' (JObj 7)] \<rparr>)"
proof -
  let ?T = "TypeRegistration ''T'' (cell_lifetime 3) [0] \<lparr> name = ''T'', args = [] \<rparr>"
  let ?F = "FactoryRegistration ''F'' Transient [] 0"
  let ?X = "InstanceRegistration ''X'' (cell_lifetime 3) [0] (JObj 7)"
  have a: "lookup (registrations (containers example_type_store 0))
             (normalizeKey (KeyString ''T'')) = Found ?T"
    by (simp add: example_type_store_T lookup_Found)
  have b: "fetch (reg_lifetime ?T) (mem (cached_world (JNum 0))) =
             (Returned (JNum 0), mem (cached_world (JNum 0)))"
    by (simp add: cell_lifetime_def cached_world_def)
  have c: "\<not> truthy (JNum 0)" by simp
  have n: "newInstanceSync example_collaborators \<lparr> name = ''T'', args = [] \<rparr>
        (handlerConfigsOf example_type_store 0) (containers example_type_store 0)
        (mem (cached_world (JNum 0))) = (Returned (JObj 1), mem (cached_world (JNum 0)))"
    and n': "newInstance example_collaborators \<lparr> name = ''T'', args = [] \<rparr>
        (handlerConfigsOf example_type_store 0) (containers example_type_store 0)
        (mem (cached_world (JNum 0))) = (Callback Null (JObj 1), mem (cached_world (JNum 0)))"
    by (simp_all add: example_collaborators_def)
  note tT = falsy_fetch_is_cache_miss [OF a b c, where cs = example_collaborators
      and n = "''T''" and l = "cell_lifetime 3" and i = "[0]"
      and ti = "\<lparr> name = ''T'', args = [] \<rparr>" and inst = "JObj 1"
      and ?h1.0 = "mem (cached_world (JNum 0))" and err = Null]
  have rT: "resolveSync example_collaborators example_type_store 0 (KeyString ''T'')
        (cached_world (JNum 0)) =
       (Returned (JObj 1),
        \<lparr> mem = (\<lambda>a. Undefined)(5 := JBool True, 3 := JObj 1),
          log = [Fetch ''T'', Build ''T'', Inject 0, Store ''T'' (JObj 1)] \<rparr>)"
    and rT': "log (snd (resolve example_collaborators example_type_store 0 (KeyString ''T'')
                 (cached_world (JNum 0)))) =
       [Fetch ''T'', Build ''T'', Inject 0, Store ''T'' (JObj 1)]"
    using tT n n' a
    by (simp_all add: injectSync_def inject_def injectAndReturn_def storeAndReturn_def
        storeAndCall_def key_or_def cell_lifetime_def cached_world_def
        example_collaborators_def fun_upd_twist Let_def)
  have aF: "lookup (registrations (containers (example_factory_store 0) 0))
             (normalizeKey (KeyString ''F'')) = Found ?F"
    by (simp add: example_factory_store_F lookup_Found)
  have bF: "fetch (reg_lifetime ?F) (mem (cached_world (JNum 0))) =
             (Returned Undefined, mem (cached_world (JNum 0)))"
    by (simp add: Transient_def)
  have cF: "\<not> truthy Undefined" by simp
  note tF = falsy_fetch_is_cache_miss [OF aF bF cF, where cs = example_collaborators
      and n = "''F''" and l = Transient and i = "[]" and f = 0 and inst = "JObj 2"
      and ?h1.0 = "mem (cached_world (JNum 0))"]
  have rF: "resolveSync example_collaborators (example_factory_store 0) 0 (KeyString ''F'')
        (cached_world (JNum 0)) =
       (Returned (JObj 2),
        \<lparr> mem = mem (cached_world (JNum 0)),
          log = [Fetch ''F'', Factory 0, Store ''F'' (JObj 2)] \<rparr>)"
    using tF aF
    by (simp add: injectSync_def storeAndReturn_def key_or_def Transient_def cached_world_def
        example_collaborators_def Let_def)
  have aX: "lookup (registrations (containers (example_store [0]) 0))
             (normalizeKey (KeyString ''X'')) = Found ?X"
    by (simp add: example_store_X lookup_Found)
  have bX: "fetch (reg_lifetime ?X) (mem (cached_world (JStr ''''))) =
             (Returned (JStr ''''), mem (cached_world (JStr '''')))"
    by (simp add: cell_lifetime_def cached_world_def)
  have cX: "\<not> truthy (JStr '''')" by simp
  note tX = falsy_fetch_is_cache_miss [OF aX bX cX, where cs = example_collaborators
      and n = "''X''" and l = "cell_lifetime 3" and i = "[0]" and v = "JObj 7"]
  have rX: "resolveSync example_collaborators (example_store [0]) 0 (KeyString ''X'')
        (cached_world (JStr '''')) =
       (Returned (JObj 7),
        \<lparr> mem = (\<lambda>a. Undefined)(5 := JBool True, 3 := JObj 7),
          log = [Fetch ''X'', Inject 0, Store ''X'' (JObj 7)] \<rparr>)"
    using tX aX
    by (simp add: injectSync_def storeAndReturn_def key_or_def cell_lifetime_def
        cached_world_def example_collaborators_def fun_upd_twist Let_def)
  show ?thesis
    using a b c n rT rT' rF rX by simp
qed

















text \<open>
  C4 fails on the code. \<open>createChildContainer\<close> copies references (lines 369, 373, 377),
  so parent and child hold the same registration objects, with their lifetimes, and the
  same handler configuration objects. Here the parent holds \<open>Foo(Bar)\<close> under a caching
  lifetime and the instance \<open>JObj 7\<close> under Bar. Resolving Foo in the parent gives a Foo
  built from \<open>JObj 7\<close>, also when the child has resolved Foo first. But once the child has
  registered \<open>JObj 8\<close> under Bar and resolved Foo, the parent, whose own Bar is still
  \<open>JObj 7\<close>, resolves Foo to the instance built from the child's \<open>JObj 8\<close>: the child's
  re-registration shows in the parent. Likewise a configuration committed with \<open>sync()\<close>
  before the fork and with \<open>async()\<close> after it changes in the child's list.
\<close>

theorem child_shares_parent_objects:
  "fst (createChildContainer 0 shared_parent_store) = 2
   \<and> fst (resolveSync resolving_collaborators shared_fork_store 0 (KeyString ''Foo'')
            example_world) = Returned (JArr [JObj 7])
   \<and> fst (resolveSync resolving_collaborators shared_fork_store 0 (KeyString ''Foo'')
            (snd (resolveSync resolving_collaborators shared_fork_store 2 (KeyString ''Foo'')
                    example_world))) = Returned (JArr [JObj 7])
   \<and> fst (registerInstance (getKeyFromInstance example_collaborators) (JObj 8)
            (Positional (Some ''Bar'') None []) 2 shared_fork_store) = Returned 2
   \<and> fst (resolveSync resolving_collaborators shared_child_store 2 (KeyString ''Foo'')
            example_world) = Returned (JArr [JObj 8])
   \<and> fst (resolveSync resolving_collaborators shared_child_store 0 (KeyString ''Bar'')
            example_world) = Returned (JObj 7)
   \<and> fst (resolveSync resolving_collaborators shared_child_store 0 (KeyString ''Foo'')
            (snd (resolveSync resolving_collaborators shared_child_store 2 (KeyString ''Foo'')
                    example_world))) = Returned (JArr [JObj 8])
   \<and> fst (createChildContainer 0 intercepted_store) = 2
   \<and> map isAsync (handlerConfigsOf intercepted_fork_store 2) = [Some False]
   \<and> map isAsync (handlerConfigsOf recommitted_store 2) = [Some True]"
  by code_simp

text \<open>
  The edge arrays are copied by reference as well (line 373). With \<open>graph.add\<close> pushing
  onto the array stored under the key, as modelled above, the edge Foo \<open>\<rightarrow>\<close> Baz that the
  child adds shows in the parent's graph, where registering \<open>Baz(Foo)\<close> then fails with a
  cycle error it would not have had.
\<close>

lemma shared_edge_array:
  "fst (createChildContainer 0 foo_store) = 2
   \<and> map_of (graph (containers forked_store 2)) ''Foo'' =
       map_of (graph (containers forked_store 0)) ''Foo''
   \<and> edges_of forked_store 0 = {(''Foo'', ''Bar'')}
   \<and> fst (registerType example_getTypeInfo 4 (Positional (Some ''Foo'') None []) 2 forked_store) =
       Returned 2
   \<and> edges_of child_foo_store 0 = {(''Foo'', ''Bar''), (''Foo'', ''Baz'')}
   \<and> fst (registerType example_getTypeInfo 1 (Positional (Some ''Baz'') None []) 0 forked_store) =
       Returned 0
   \<and> fst (registerType example_getTypeInfo 1 (Positional (Some ''Baz'') None []) 0
            child_foo_store) = Threw (cyclicError ''Foo'' ''Baz'')"
  by code_simp

lemma in_edge_list:
  "(k, d) \<in> set (edge_list g ob) \<longleftrightarrow> (\<exists>r. (k, r) \<in> set g \<and> d \<in> set (arrays ob r))"
  by (auto simp: edge_list_def)

lemma graph_add_edges:
  assumes "graph_wf g ob" and "graph_add p d (g, ob) = (g', ob')"
  shows "insert (p, d) (set (edge_list g ob)) \<subseteq> set (edge_list g' ob')"
    and "graph_wf g' ob'"
proof -
  show "insert (p, d) (set (edge_list g ob)) \<subseteq> set (edge_list g' ob')"
  proof (cases "map_of g p")
    case None
    with assms have g': "g' = g @ [(p, fresh ob)]"
      and a': "arrays ob' = (arrays ob)(fresh ob := [d])"
      by (auto simp: graph_add_def)
    have keep: "\<And>k r. (k, r) \<in> set g \<Longrightarrow> arrays ob' r = arrays ob r"
      using assms(1) a' by (auto simp: graph_wf_def)
    have new: "arrays ob' (fresh ob) = [d]"
      using a' by simp
    show ?thesis
    proof
      fix e assume "e \<in> insert (p, d) (set (edge_list g ob))"
      then consider "e = (p, d)" | "e \<in> set (edge_list g ob)" by blast
      then show "e \<in> set (edge_list g' ob')"
      proof cases
        case 1
        have "(p, fresh ob) \<in> set g'" using g' by simp
        with new have "(p, d) \<in> set (edge_list g' ob')"
          unfolding in_edge_list by force
        with 1 show ?thesis by simp
      next
        case 2
        obtain k x where e: "e = (k, x)" by (cases e)
        with 2 have "(k, x) \<in> set (edge_list g ob)" by simp
        then obtain r where r: "(k, r) \<in> set g" "x \<in> set (arrays ob r)"
          unfolding in_edge_list by blast
        then have "(k, r) \<in> set g'" "x \<in> set (arrays ob' r)"
          using g' keep by simp_all
        then have "(k, x) \<in> set (edge_list g' ob')"
          unfolding in_edge_list by blast
        with e show ?thesis by simp
      qed
    qed
  next
    case (Some r)
    then have pr: "(p, r) \<in> set g" by (rule map_of_SomeD)
    from Some assms have g': "g' = g"
      and a': "arrays ob' = (if d \<in> set (arrays ob r) then arrays ob
                            else (arrays ob)(r := arrays ob r @ [d]))"
      by (auto simp: graph_add_def split: if_splits)
    show ?thesis
      using g' a' pr by (auto simp: in_edge_list split: if_splits)
  qed
  show "graph_wf g' ob'"
    using assms
    by (fastforce simp: graph_add_def graph_wf_def less_Suc_eq split: option.splits if_splits)
qed

lemma add_edge_edges:
  assumes "graph_wf (graph (containers ob this)) ob"
  shows "insert (t, d) (edges_of ob this) \<subseteq> edges_of (add_edge this t ob d) this
       \<and> graph_wf (graph (containers (add_edge this t ob d) this)) (add_edge this t ob d)"
proof -
  obtain g' ob' where ga: "graph_add t d (graph (containers ob this), ob) = (g', ob')"
    by (cases "graph_add t d (graph (containers ob this), ob)")
  have e: "add_edge this t ob d =
          ob'\<lparr> containers := (containers ob')(this := (containers ob' this)\<lparr> graph := g' \<rparr>) \<rparr>"
    using ga by (simp add: add_edge_def)
  have el: "edges_of (add_edge this t ob d) this = set (edge_list g' ob')"
    by (simp add: edges_of_def e edge_list_def)
  have wf: "graph_wf (graph (containers (add_edge this t ob d) this)) (add_edge this t ob d)
              = graph_wf g' ob'"
    by (simp add: e graph_wf_def)
  show ?thesis
    using graph_add_edges [OF assms ga]
    unfolding el wf by (simp add: edges_of_def)
qed

lemma add_edges_edges:
  assumes "graph_wf (graph (containers ob this)) ob"
  shows "edges_of ob this \<union> {(t, d) | d. d \<in> set ds}
           \<subseteq> edges_of (foldl (add_edge this t) ob ds) this"
  using assms
proof (induction ds arbitrary: ob)
  case Nil
  show ?case by simp
next
  case (Cons d ds)
  from add_edge_edges [OF Cons.prems, of t d]
  have sub: "insert (t, d) (edges_of ob this) \<subseteq> edges_of (add_edge this t ob d) this"
    and wf: "graph_wf (graph (containers (add_edge this t ob d) this)) (add_edge this t ob d)"
    by simp_all
  from Cons.IH [OF wf] sub show ?case by auto
qed

lemma set_registration_edges:
  "edges_of (set_registration this k r ob) this = edges_of ob this"
  "graph_wf (graph (containers (set_registration this k r ob) this)) (set_registration this k r ob)
     = graph_wf (graph (containers ob this)) ob"
  by (simp_all add: edges_of_def set_registration_def edge_list_def graph_wf_def)

lemma getChain_cycle:
  assumes "(a, k) \<in> set (edge_list g ob)" and "reachable g ob k a"
  shows "\<exists>a'. getChain g ob k = Threw (cyclicError a' k)
             \<and> (a', k) \<in> set (edge_list g ob) \<and> reachable g ob k a'"
proof -
  let ?f = "filter (\<lambda>(a, d). d = k \<and> reachable g ob k a) (edge_list g ob)"
  from assms have "(a, k) \<in> set ?f" by simp
  then obtain a' d' rest where f: "?f = (a', d') # rest"
    by (cases ?f) auto
  then have "(a', d') \<in> set ?f" by simp
  then have "d' = k \<and> reachable g ob k a' \<and> (a', d') \<in> set (edge_list g ob)" by auto
  with f show ?thesis by (auto simp: getChain_def)
qed

text \<open>
  C7. When the extractor returns a type one of whose dependencies \<open>d\<close> is the type
  itself, or reaches it along the edges already in the graph, \<open>registerType\<close> throws the
  cycle error, which names a node with an edge to the type. (\<open>registerType\<close> has no
  access to the builder or the heap: nothing is constructed.)
\<close>

theorem cyclic_registration_fails:
  assumes "getTypeInfo ctor (okey (resolveSignatureToOptions sig)) = Returned ti"
    and "graph_wf (graph (containers ob this)) ob"
    and "d \<in> set (args ti)"
    and "d = name ti \<or> (d, name ti) \<in> (edges_of ob this)\<^sup>+"
  shows "\<exists>a. fst (registerType getTypeInfo ctor sig this ob) = Threw (cyclicError a (name ti))
            \<and> (a, name ti) \<in> edges_of (snd (registerType getTypeInfo ctor sig this ob)) this"
proof -
  let ?opts = "resolveSignatureToOptions sig"
  let ?ob1 = "set_registration this (name ti)
                (TypeRegistration (name ti) (lifetime_or_default (olifetime ?opts))
                   (injections_or_default (oinjections ?opts)) ti) ob"
  let ?ob2 = "foldl (add_edge this (name ti)) ?ob1 (args ti)"
  let ?g2 = "graph (containers ?ob2 this)"
  have wf1: "graph_wf (graph (containers ?ob1 this)) ?ob1"
    using assms(2) by (simp add: set_registration_edges)
  have sub: "edges_of ob this \<union> {(name ti, x) | x. x \<in> set (args ti)} \<subseteq> edges_of ?ob2 this"
    using add_edges_edges [OF wf1, of "name ti" "args ti"]
    by (simp add: set_registration_edges)
  then have nd: "(name ti, d) \<in> edges_of ?ob2 this"
    using assms(3) by auto
  have "\<exists>a. (a, name ti) \<in> edges_of ?ob2 this \<and> reachable ?g2 ?ob2 (name ti) a"
  proof (cases "d = name ti")
    case True
    with nd show ?thesis by (auto simp: reachable_def)
  next
    case False
    with assms(4) have "(d, name ti) \<in> (edges_of ob this)\<^sup>+" by simp
    then obtain z where z: "(d, z) \<in> (edges_of ob this)\<^sup>*" "(z, name ti) \<in> edges_of ob this"
      by (auto dest: tranclD2)
    from z(1) sub have "(d, z) \<in> (edges_of ?ob2 this)\<^sup>*"
      by (meson Un_subset_iff rtrancl_mono subsetD)
    with nd have "(name ti, z) \<in> (edges_of ?ob2 this)\<^sup>+"
      by (rule rtrancl_into_trancl2)
    moreover from z(2) sub have "(z, name ti) \<in> edges_of ?ob2 this" by auto
    ultimately show ?thesis by (auto simp: reachable_def edges_of_def)
  qed
  then obtain a where a: "(a, name ti) \<in> set (edge_list ?g2 ?ob2)" "reachable ?g2 ?ob2 (name ti) a"
    by (auto simp: edges_of_def)
  from getChain_cycle [OF a] obtain a' where
    a': "getChain ?g2 ?ob2 (name ti) = Threw (cyclicError a' (name ti))"
        "(a', name ti) \<in> set (edge_list ?g2 ?ob2)"
    by blast
  have "registerType getTypeInfo ctor sig this ob = (Threw (cyclicError a' (name ti)), ?ob2)"
    using assms(1) a'(1) by (simp add: registerType_def Let_def)
  with a'(2) show ?thesis by (auto simp: edges_of_def)
qed

lemma foo_store_graph:
  "graph (containers foo_store 0) = [(''Foo'', Suc 0)]"
  "arrays foo_store (Suc 0) = [''Bar'']"
  "fresh foo_store = Suc (Suc 0)"
  by (simp_all add: foo_store_def registerType_def example_getTypeInfo_def empty_store_def
      newContainer_def example_objects_def set_registration_def add_edge_def graph_add_def
      getChain_def edge_list_def reachable_def key_or_def Let_def)

lemma bar_after_foo:
  "fst (registerType example_getTypeInfo 1 NoArguments 0 foo_store) =
     Threw (cyclicError ''Foo'' ''Bar'')"
  by code_simp

theorem cyclic_registration_fails_witness:
  "example_getTypeInfo 1 (okey (resolveSignatureToOptions NoArguments)) =
     Returned \<lparr> name = ''Bar'', args = [''Foo''] \<rparr>
   \<and> graph_wf (graph (containers foo_store 0)) foo_store
   \<and> (''Foo'', ''Bar'') \<in> (edges_of foo_store 0)\<^sup>+
   \<and> (\<exists>a. fst (registerType example_getTypeInfo 1 NoArguments 0 foo_store) =
             Threw (cyclicError a ''Bar''))
   \<and> fst (registerType example_getTypeInfo 1 NoArguments 0 foo_store) =
       Threw (JError ''Cyclic dependency from Foo to Bar'')
   \<and> example_getTypeInfo 2 (okey (resolveSignatureToOptions NoArguments)) =
       Returned \<lparr> name = ''Selfish'', args = [''Selfish''] \<rparr>
   \<and> graph_wf (graph (containers empty_store 0)) empty_store
   \<and> (\<exists>a. fst (registerType example_getTypeInfo 2 NoArguments 0 empty_store) =
             Threw (cyclicError a ''Selfish''))"
proof -
  have ti1: "example_getTypeInfo 1 (okey (resolveSignatureToOptions NoArguments)) =
     Returned \<lparr> name = ''Bar'', args = [''Foo''] \<rparr>"
    by (simp add: example_getTypeInfo_def key_or_def)
  have wf1: "graph_wf (graph (containers foo_store 0)) foo_store"
    by (simp add: graph_wf_def foo_store_graph)
  have e1: "(''Foo'', ''Bar'') \<in> (edges_of foo_store 0)\<^sup>+"
    by (rule r_into_trancl) (simp add: edges_of_def edge_list_def foo_store_graph)
  have ti2: "example_getTypeInfo 2 (okey (resolveSignatureToOptions NoArguments)) =
       Returned \<lparr> name = ''Selfish'', args = [''Selfish''] \<rparr>"
    by (simp add: example_getTypeInfo_def key_or_def)
  have wf2: "graph_wf (graph (containers empty_store 0)) empty_store"
    by (simp add: graph_wf_def empty_store_def newContainer_def example_objects_def)
  note t1 = cyclic_registration_fails [where getTypeInfo = example_getTypeInfo and ctor = 1
      and sig = NoArguments and ti = "\<lparr> name = ''Bar'', args = [''Foo''] \<rparr>"
      and ob = foo_store and this = 0 and d = "''Foo''"]
  note t2 = cyclic_registration_fails [where getTypeInfo = example_getTypeInfo and ctor = 2
      and sig = NoArguments and ti = "\<lparr> name = ''Selfish'', args = [''Selfish''] \<rparr>"
      and ob = empty_store and this = 0 and d = "''Selfish''"]
  have x1: "\<exists>a. fst (registerType example_getTypeInfo 1 NoArguments 0 foo_store) =
             Threw (cyclicError a ''Bar'')"
    using t1 ti1 wf1 e1 by auto
  have x2: "\<exists>a. fst (registerType example_getTypeInfo 2 NoArguments 0 empty_store) =
             Threw (cyclicError a ''Selfish'')"
    using t2 ti2 wf2 by auto
  show ?thesis
    using ti1 wf1 e1 x1 ti2 wf2 x2 bar_after_foo by (simp add: cyclicError_def)
qed

text \<open>
  C9. \<open>intercept\<close> alone leaves every container, and the handler configurations the
  container refers to, as they were. \<open>sync()\<close> and \<open>async()\<close> return the container and
  append one configuration with the given handlers, the predicate of the matcher and
  \<open>isAsync\<close> false or true. The predicate of a string is equality with the method name;
  of an array, instance-of its first element and, when the second is truthy, equality of
  the second with the method name; of a function, the function itself; of anything else,
  its truthiness.
\<close>

theorem intercept_commits_on_sync_or_async:
  assumes "config_wf this ob"
    and "intercept rt m hs this ob = (p, ob1)"
  shows "containers ob1 = containers ob
       \<and> handlerConfigsOf ob1 this = handlerConfigsOf ob this
       \<and> fst (sync p ob1) = this
       \<and> handlerConfigsOf (snd (sync p ob1)) this =
           handlerConfigsOf ob this
             @ [\<lparr> handlers = hs, matcher = predicateOf rt m, isAsync = Some False \<rparr>]
       \<and> fst (async p ob1) = this
       \<and> handlerConfigsOf (snd (async p ob1)) this =
           handlerConfigsOf ob this
             @ [\<lparr> handlers = hs, matcher = predicateOf rt m, isAsync = Some True \<rparr>]
       \<and> predicateOf rt (JStr s) inst methodName = Returned (JBool (methodName = s))
       \<and> predicateOf rt (JArr xs) inst methodName =
           (case instanceOf rt inst (element xs 0) of
              Threw e \<Rightarrow> Threw e
            | Returned b \<Rightarrow>
                Returned (JBool (b \<and> (\<not> truthy (element xs 1)
                                       \<or> element xs 1 = JStr methodName))))
       \<and> ((\<forall>t. v \<noteq> JStr t) \<and> (\<forall>ys. v \<noteq> JArr ys) \<and> (\<forall>f. v \<noteq> JFun f)
            \<longrightarrow> predicateOf rt v inst methodName = Returned (JBool (truthy v)))
       \<and> predicateOf rt (JFun f) = callFunction rt f"
proof -
  from assms(2) have p: "p = (this, fresh ob)"
    and ob1: "ob1 = ob\<lparr> configs := (configs ob)(fresh ob :=
                 \<lparr> handlers = hs, matcher = predicateOf rt m, isAsync = None \<rparr>),
               fresh := Suc (fresh ob) \<rparr>"
    by (auto simp: intercept_def)
  have nf: "fresh ob \<notin> set (handlerConfigs (containers ob this))"
    using assms(1) by (auto simp: config_wf_def)
  have "predicateOf rt v inst methodName = Returned (JBool (truthy v))"
    if "(\<forall>t. v \<noteq> JStr t) \<and> (\<forall>ys. v \<noteq> JArr ys) \<and> (\<forall>f. v \<noteq> JFun f)"
    using that by (cases v) simp_all
  moreover have "containers ob1 = containers ob" by (simp add: ob1)
  moreover have "handlerConfigsOf ob1 this = handlerConfigsOf ob this"
    using nf by (simp add: handlerConfigsOf_def ob1)
  moreover have "handlerConfigsOf (snd (commit a p ob1)) this =
           handlerConfigsOf ob this
             @ [\<lparr> handlers = hs, matcher = predicateOf rt m, isAsync = Some a \<rparr>]" for a
    using nf by (simp add: handlerConfigsOf_def commit_def p ob1 Let_def)
  moreover have "fst (commit a p ob1) = this" for a
    by (simp add: commit_def p Let_def)
  ultimately show ?thesis
    by (simp add: sync_def async_def)
qed

theorem intercept_commits_on_sync_or_async_witness:
  "config_wf 0 empty_store
   \<and> handlerConfigsOf (snd (intercept example_runtime (JStr ''foo'') [1, 2] 0 empty_store)) 0 = []
   \<and> fst (sync (fst (intercept example_runtime (JStr ''foo'') [1, 2] 0 empty_store))
            (snd (intercept example_runtime (JStr ''foo'') [1, 2] 0 empty_store))) = 0
   \<and> handlerConfigsOf
        (snd (sync (fst (intercept example_runtime (JStr ''foo'') [1, 2] 0 empty_store))
                (snd (intercept example_runtime (JStr ''foo'') [1, 2] 0 empty_store)))) 0 =
       [\<lparr> handlers = [1, 2], matcher = predicateOf example_runtime (JStr ''foo''),
          isAsync = Some False \<rparr>]
   \<and> map isAsync (handlerConfigsOf
        (snd (async (fst (intercept example_runtime (JStr ''foo'') [1, 2] 0 empty_store))
                (snd (intercept example_runtime (JStr ''foo'') [1, 2] 0 empty_store)))) 0) =
       [Some True]
   \<and> predicateOf example_runtime (JStr ''foo'') (JObj 1) ''foo'' = Returned (JBool True)
   \<and> predicateOf example_runtime (JStr ''foo'') (JObj 1) ''bar'' = Returned (JBool False)
   \<and> predicateOf example_runtime (JArr [JFun 4, JStr ''go'']) (JObj 4) ''go'' = Returned (JBool True)
   \<and> predicateOf example_runtime (JArr [JFun 4, JStr ''go'']) (JObj 4) ''stop'' = Returned (JBool False)
   \<and> predicateOf example_runtime (JArr [JFun 4]) (JObj 4) ''stop'' = Returned (JBool True)
   \<and> predicateOf example_runtime (JArr [JFun 4]) (JObj 5) ''stop'' = Returned (JBool False)
   \<and> predicateOf example_runtime (JBool False) (JObj 1) ''foo'' = Returned (JBool False)
   \<and> predicateOf example_runtime (JNum 1) (JObj 1) ''foo'' = Returned (JBool True)
   \<and> predicateOf example_runtime (JFun 9) (JObj 1) ''run'' = Returned (JBool True)"
proof -
  have wf: "config_wf 0 empty_store"
    by (simp add: config_wf_def empty_store_def newContainer_def example_objects_def)
  have e: "handlerConfigsOf empty_store 0 = []"
    by (simp add: handlerConfigsOf_def empty_store_def newContainer_def example_objects_def)
  have i: "intercept example_runtime (JStr ''foo'') [1, 2] 0 empty_store =
             (fst (intercept example_runtime (JStr ''foo'') [1, 2] 0 empty_store),
              snd (intercept example_runtime (JStr ''foo'') [1, 2] 0 empty_store))"
    by simp
  note t = intercept_commits_on_sync_or_async [OF wf i]
  note t1 = t [where v = "JBool False" and inst = "JObj 1" and methodName = "''foo''"]
  note t2 = t [where v = "JNum 1" and inst = "JObj 1" and methodName = "''foo''"]
  show ?thesis
    using wf e t1 t2
    by (simp add: example_runtime_def element_def)
qed

end
